theory Spec2Isabelle
  imports Main
begin

section \<open>Python values and exceptions\<close>

text \<open>
  A float carries a dyadic value \<open>m * 2^e\<close> or one of the non-finite values; the code
  below only tests a float for truth and prints it.
\<close>

datatype pyfloat = Finite int int | Inf bool | NaN

text \<open>
  The values the JSON decoder produces, which are also the values the client puts into
  its result dicts: \<open>None\<close>, \<open>bool\<close>, \<open>int\<close>, \<open>float\<close>, \<open>str\<close>, \<open>list\<close> and \<open>dict\<close>.
  A dict is an association list in insertion order; a lookup takes the first binding of
  a key.
\<close>

datatype json =
    JNull
  | JBool bool
  | JInt int
  | JFloat pyfloat
  | JStr string
  | JArr "json list"
  | JObj "(string \<times> json) list"

type_synonym pydict = "(string \<times> json) list"

text \<open>
  The exception classes that can reach the handlers of \<open>App.py\<close>. \<open>KeyboardInterrupt\<close>
  and \<open>SystemExit\<close> derive from \<open>BaseException\<close> only; every other class derives from
  \<open>Exception\<close>. An exception value carries its class and the text \<open>str(e)\<close>.
\<close>

datatype exn_class =
    KeyboardInterrupt
  | SystemExit
  | RequestException
  | HTTPError
  | JSONDecodeError
  | RecursionError
  | ValueError
  | KeyError
  | TypeError
  | AttributeError

datatype exn = Exn (exn_cls: exn_class) (exn_str: string)

fun is_Exception_class :: "exn_class \<Rightarrow> bool" where
  "is_Exception_class KeyboardInterrupt = False"
| "is_Exception_class SystemExit = False"
| "is_Exception_class _ = True"

definition is_Exception :: "exn \<Rightarrow> bool" where
  "is_Exception e = is_Exception_class (exn_cls e)"


text \<open>Sequencing of two steps either of which may raise.\<close>

definition and_then :: "exn + 'a \<Rightarrow> ('a \<Rightarrow> exn + 'b) \<Rightarrow> exn + 'b" where
  "and_then x f = (case x of Inl e \<Rightarrow> Inl e | Inr v \<Rightarrow> f v)"

section \<open>The builtins the client calls\<close>

subsection \<open>\<open>str.strip\<close> and \<open>str.rstrip\<close>\<close>



text \<open>\<open>s.rstrip(chars)\<close>: the longest suffix made of characters of \<open>chars\<close> removed.\<close>

definition py_rstrip :: "string \<Rightarrow> string \<Rightarrow> string" where
  "py_rstrip chars s = rev (dropWhile (\<lambda>c. c \<in> set chars) (rev s))"

subsection \<open>\<open>str(n)\<close> for an integer\<close>

fun nat_digits :: "nat \<Rightarrow> string" where
  "nat_digits n =
     (if n < 10 then [char_of (48 + n)]
      else nat_digits (n div 10) @ [char_of (48 + n mod 10)])"

declare nat_digits.simps [simp del]

definition str_int :: "int \<Rightarrow> string" where
  "str_int i = (if i < 0 then CHR ''-'' # nat_digits (nat (- i)) else nat_digits (nat i))"

subsection \<open>\<open>repr(s)\<close> for a string\<close>

definition hex_digit :: "nat \<Rightarrow> char" where
  "hex_digit d = (if d < 10 then char_of (48 + d) else char_of (87 + d))"

text \<open>
  Code points below 256 that \<open>repr\<close> writes as they are: the printable ASCII characters
  and the Latin-1 characters from 161 on, the soft hyphen 173 apart.
\<close>

definition is_printable :: "char \<Rightarrow> bool" where
  "is_printable c =
     (let n = (of_char c :: nat) in (32 \<le> n \<and> n < 127) \<or> (161 \<le> n \<and> n \<noteq> 173))"

definition repr_char :: "char \<Rightarrow> char \<Rightarrow> string" where
  "repr_char quote c =
     (if c = quote \<or> c = CHR 0x5C then [CHR 0x5C, c]
      else if c = CHR 0x09 then [CHR 0x5C, CHR ''t'']
      else if c = CHR 0x0A then [CHR 0x5C, CHR ''n'']
      else if c = CHR 0x0D then [CHR 0x5C, CHR ''r'']
      else if is_printable c then [c]
      else [CHR 0x5C, CHR ''x'', hex_digit (of_char c div 16), hex_digit (of_char c mod 16)])"

definition py_repr :: "string \<Rightarrow> string" where
  "py_repr s =
     (let quote = (if CHR 0x27 \<in> set s \<and> CHR 0x22 \<notin> set s then CHR 0x22 else CHR 0x27)
      in [quote] @ concat (map (repr_char quote) s) @ [quote])"

subsection \<open>\<open>int(s)\<close> for a string\<close>

definition is_digit :: "char \<Rightarrow> bool" where
  "is_digit c = (48 \<le> (of_char c :: nat) \<and> (of_char c :: nat) \<le> 57)"

definition digit_val :: "char \<Rightarrow> int" where
  "digit_val c = int (of_char c) - 48"

text \<open>
  The white space that \<open>int\<close> skips around a literal, on code points below 256. It is
  not the white space of \<open>str.strip\<close>: the separators 28 to 31 are not skipped.
\<close>

definition is_int_space :: "char \<Rightarrow> bool" where
  "is_int_space c = (of_char c \<in> {9, 10, 11, 12, 13, 32, 133, 160 :: nat})"

text \<open>
  The scan of a literal: it reads digits and underscores as far as they go and returns
  the digits read, whether the last character read was an underscore, and the rest of
  the text. Two underscores in a row stop it with \<open>None\<close>. The flag says whether the
  character before was an underscore.
\<close>

fun scan_literal :: "bool \<Rightarrow> string \<Rightarrow> (char list \<times> bool \<times> string) option" where
  "scan_literal prev [] = Some ([], prev, [])"
| "scan_literal prev (c # cs) =
     (if c = CHR ''_'' then (if prev then None else scan_literal True cs)
      else if is_digit c then
        map_option (\<lambda>(ds, uscore, rest). (c # ds, uscore, rest)) (scan_literal False cs)
      else Some ([], prev, c # cs))"

definition digits_value :: "char list \<Rightarrow> int" where
  "digits_value ds = foldl (\<lambda>acc d. 10 * acc + digit_val d) 0 ds"

text \<open>The interpreter's default limit on the digits of a decimal literal.\<close>

definition int_max_str_digits :: nat where
  "int_max_str_digits = 4300"

definition invalid_literal :: "string \<Rightarrow> exn" where
  "invalid_literal s =
     Exn ValueError (''invalid literal for int() with base 10: '' @ take 200 (py_repr s))"

definition exceeds_limit :: "nat \<Rightarrow> exn" where
  "exceeds_limit n =
     Exn ValueError
       (''Exceeds the limit ('' @ nat_digits int_max_str_digits
        @ '' digits) for integer string conversion: value has '' @ nat_digits n
        @ '' digits; use sys.set_int_max_str_digits() to increase the limit'')"

text \<open>
  \<open>int(s)\<close>, in the order of the interpreter's checks: the white space in front is
  skipped, then an optional sign; a literal may not start with an underscore, have two
  underscores in a row or end with one; the digits read are counted against the limit
  before anything after them is looked at; there must be a digit; and after the
  literal only white space may follow. Anything else raises \<open>ValueError\<close>.
\<close>

definition py_int :: "string \<Rightarrow> exn + int" where
  "py_int s =
     (let t = dropWhile is_int_space s;
          (neg, body) =
            (case t of
               [] \<Rightarrow> (False, [])
             | c # cs \<Rightarrow>
                 if c = CHR ''-'' then (True, cs)
                 else if c = CHR ''+'' then (False, cs)
                 else (False, t))
      in if take 1 body = ''_'' then Inl (invalid_literal s)
         else
           case scan_literal False body of
             None \<Rightarrow> Inl (invalid_literal s)
           | Some (ds, uscore, rest) \<Rightarrow>
               if uscore then Inl (invalid_literal s)
               else if int_max_str_digits < length ds then Inl (exceeds_limit (length ds))
               else if ds = [] then Inl (invalid_literal s)
               else if dropWhile is_int_space rest \<noteq> [] then Inl (invalid_literal s)
               else Inr (if neg then - digits_value ds else digits_value ds))"

section \<open>The HTTP transport\<close>

text \<open>
  The HTTP library is an external collaborator. A call of \<open>requests.get\<close>,
  \<open>requests.post\<close>, \<open>requests.put\<close> or \<open>requests.delete\<close> is a request value handed to
  the transport; \<open>req_params\<close> is the \<open>params=\<close> argument (sent as the query string) and
  \<open>req_json\<close> the \<open>json=\<close> argument (sent as a JSON body), \<open>None\<close> when the call does
  not pass it.
\<close>

datatype http_method = GET | POST | PUT | DELETE

record request =
  req_method :: http_method
  req_url :: string
  req_auth :: "string \<times> string"
  req_params :: "json option"
  req_json :: "json option"

text \<open>
  A response as the client reads it: \<open>headers\<close> is the lookup of the header dictionary,
  \<open>json_result\<close> what \<open>response.json()\<close> returns or raises, \<open>body_text\<close> is
  \<open>response.text\<close>.
\<close>

record response =
  status_code :: int
  reason :: string
  url :: string
  headers :: "string \<Rightarrow> string option"
  json_result :: "exn + json"
  body_text :: string

datatype outcome = Raised exn | Responded response

type_synonym transport = "request \<Rightarrow> outcome"

definition send :: "transport \<Rightarrow> request \<Rightarrow> exn + response" where
  "send T req = (case T req of Raised e \<Rightarrow> Inl e | Responded r \<Rightarrow> Inr r)"

text \<open>
  \<open>response.raise_for_status()\<close> of the HTTP library: it raises \<open>HTTPError\<close> for a status
  from 400 to 599 and returns for every other status.
\<close>

definition raise_for_status :: "response \<Rightarrow> exn + unit" where
  "raise_for_status r =
     (if 400 \<le> status_code r \<and> status_code r < 500 then
        Inl (Exn HTTPError
          (str_int (status_code r) @ '' Client Error: '' @ reason r @ '' for url: '' @ url r))
      else if 500 \<le> status_code r \<and> status_code r < 600 then
        Inl (Exn HTTPError
          (str_int (status_code r) @ '' Server Error: '' @ reason r @ '' for url: '' @ url r))
      else Inr ())"

section \<open>The API client\<close>

record WooCommerceAPI =
  base_url :: string
  consumer_key :: string
  consumer_secret :: string
  auth :: "string \<times> string"

text \<open>\<open>WooCommerceAPI.__init__\<close>\<close>

definition init :: "string \<Rightarrow> string \<Rightarrow> string \<Rightarrow> WooCommerceAPI" where
  "init b k s =
     \<lparr>base_url = py_rstrip ''/'' b, consumer_key = k, consumer_secret = s, auth = (k, s)\<rparr>"

text \<open>\<open>int(response.headers.get(name, dflt))\<close> with an integer default.\<close>

definition int_header :: "response \<Rightarrow> string \<Rightarrow> int \<Rightarrow> exn + int" where
  "int_header r name dflt =
     (case headers r name of None \<Rightarrow> Inr dflt | Some s \<Rightarrow> py_int s)"

text \<open>
  The statements after the request in \<open>get_products\<close> and in \<open>get_subscriptions\<close>, which
  are the same: the status check, then the dict literal, its entries evaluated in order.
\<close>

definition paged_result :: "response \<Rightarrow> exn + pydict" where
  "paged_result r =
     and_then (raise_for_status r) (\<lambda>_.
     and_then (json_result r) (\<lambda>data.
     and_then (int_header r ''X-WP-TotalPages'' 1) (\<lambda>total_pages.
     and_then (int_header r ''X-WP-Total'' 0) (\<lambda>total_items.
       Inr [(''success'', JBool True), (''data'', data),
            (''total_pages'', JInt total_pages), (''total_items'', JInt total_items)]))))"

text \<open>
  \<open>except Exception as e: return {'success': False, 'error': str(e)}\<close>. An exception
  that is not an \<open>Exception\<close> leaves the method.
\<close>

definition failure :: "exn \<Rightarrow> pydict" where
  "failure e = [(''success'', JBool False), (''error'', JStr (exn_str e))]"

definition except_Exception :: "exn + pydict \<Rightarrow> exn + pydict" where
  "except_Exception x =
     (case x of
        Inl e \<Rightarrow> if is_Exception e then Inr (failure e) else Inl e
      | Inr d \<Rightarrow> Inr d)"

definition products_request :: "WooCommerceAPI \<Rightarrow> int \<Rightarrow> int \<Rightarrow> request" where
  "products_request api per_page page =
     \<lparr>req_method = GET,
      req_url = base_url api @ ''/wp-json/wc/v3/products'',
      req_auth = auth api,
      req_params = Some (JObj [(''per_page'', JInt per_page), (''page'', JInt page),
                               (''status'', JStr ''publish'')]),
      req_json = None\<rparr>"

text \<open>
  Every operation returns the requests it handed to the transport together with its
  result: \<open>Inr\<close> the returned dict, \<open>Inl\<close> an exception that leaves the method.
\<close>

definition get_products ::
  "transport \<Rightarrow> WooCommerceAPI \<Rightarrow> int \<Rightarrow> int \<Rightarrow> request list \<times> (exn + pydict)" where
  "get_products T api per_page page =
     (let req = products_request api per_page page
      in ([req], except_Exception (and_then (send T req) paged_result)))"

definition subscriptions_request :: "WooCommerceAPI \<Rightarrow> int \<Rightarrow> int \<Rightarrow> request" where
  "subscriptions_request api per_page page =
     \<lparr>req_method = GET,
      req_url = base_url api @ ''/wp-json/wc/v3/subscriptions'',
      req_auth = auth api,
      req_params = Some (JObj [(''per_page'', JInt per_page), (''page'', JInt page)]),
      req_json = None\<rparr>"

definition get_subscriptions ::
  "transport \<Rightarrow> WooCommerceAPI \<Rightarrow> int \<Rightarrow> int \<Rightarrow> request list \<times> (exn + pydict)" where
  "get_subscriptions T api per_page page =
     (let req = subscriptions_request api per_page page
      in ([req], except_Exception (and_then (send T req) paged_result)))"

definition status_request :: "WooCommerceAPI \<Rightarrow> request" where
  "status_request api =
     \<lparr>req_method = GET,
      req_url = base_url api @ ''/wp-json/wc/v3/system_status'',
      req_auth = auth api,
      req_params = None,
      req_json = None\<rparr>"

definition test_connection ::
  "transport \<Rightarrow> WooCommerceAPI \<Rightarrow> request list \<times> (exn + pydict)" where
  "test_connection T api =
     (let req = status_request api
      in ([req],
          except_Exception
            (and_then (send T req) (\<lambda>r.
             and_then (raise_for_status r) (\<lambda>_.
               Inr [(''success'', JBool True),
                    (''message'', JStr ''Connection successful!'')])))))"

section \<open>Slashes in a URL\<close>

text \<open>Whether a text contains two slashes in a row.\<close>

fun double_slash :: "string \<Rightarrow> bool" where
  "double_slash (a # b # cs) = ((a = CHR ''/'' \<and> b = CHR ''/'') \<or> double_slash (b # cs))"
| "double_slash _ = False"

section \<open>The request tester\<close>







section \<open>Rows of the tables\<close>

text \<open>The truth value of a decoded value, as \<open>if v\<close> tests it.\<close>

fun truthy :: "json \<Rightarrow> bool" where
  "truthy JNull = False"
| "truthy (JBool b) = b"
| "truthy (JInt i) = (i \<noteq> 0)"
| "truthy (JFloat (Finite m e)) = (m \<noteq> 0)"
| "truthy (JFloat _) = True"
| "truthy (JStr s) = (s \<noteq> [])"
| "truthy (JArr xs) = (xs \<noteq> [])"
| "truthy (JObj kvs) = (kvs \<noteq> [])"

text \<open>
  \<open>str(v)\<close>, which is what an f-string writes for \<open>{v}\<close>. The text of a float, a list or
  a dict is left to the parameter \<open>str_other\<close>.
\<close>

definition py_str :: "(json \<Rightarrow> string) \<Rightarrow> json \<Rightarrow> string" where
  "py_str str_other v =
     (case v of
        JStr s \<Rightarrow> s
      | JInt i \<Rightarrow> str_int i
      | JBool b \<Rightarrow> (if b then ''True'' else ''False'')
      | JNull \<Rightarrow> ''None''
      | _ \<Rightarrow> str_other v)"

definition type_name :: "json \<Rightarrow> string" where
  "type_name v =
     (case v of
        JNull \<Rightarrow> ''NoneType''
      | JBool _ \<Rightarrow> ''bool''
      | JInt _ \<Rightarrow> ''int''
      | JFloat _ \<Rightarrow> ''float''
      | JStr _ \<Rightarrow> ''str''
      | JArr _ \<Rightarrow> ''list''
      | JObj _ \<Rightarrow> ''dict'')"

definition quoted :: "string \<Rightarrow> string" where
  "quoted s = [CHR 0x27] @ s @ [CHR 0x27]"

text \<open>\<open>v[key]\<close> with a string key.\<close>

definition getitem :: "json \<Rightarrow> string \<Rightarrow> exn + json" where
  "getitem v key =
     (case v of
        JObj kvs \<Rightarrow>
          (case map_of kvs key of
             None \<Rightarrow> Inl (Exn KeyError (py_repr key))
           | Some x \<Rightarrow> Inr x)
      | JArr _ \<Rightarrow> Inl (Exn TypeError ''list indices must be integers or slices, not str'')
      | JStr _ \<Rightarrow>
          Inl (Exn TypeError (''string indices must be integers, not '' @ quoted ''str''))
      | _ \<Rightarrow>
          Inl (Exn TypeError (quoted (type_name v) @ '' object is not subscriptable'')))"

text \<open>\<open>v.get(key, dflt)\<close>\<close>

definition dict_get :: "json \<Rightarrow> string \<Rightarrow> json \<Rightarrow> exn + json" where
  "dict_get v key dflt =
     (case v of
        JObj kvs \<Rightarrow> Inr (case map_of kvs key of None \<Rightarrow> dflt | Some x \<Rightarrow> x)
      | _ \<Rightarrow>
          Inl (Exn AttributeError
                (quoted (type_name v) @ '' object has no attribute '' @ quoted ''get'')))"

text \<open>The items a \<open>for\<close> draws from a value: a dict gives its keys, a string its characters.\<close>

definition py_iter :: "json \<Rightarrow> exn + json list" where
  "py_iter v =
     (case v of
        JArr xs \<Rightarrow> Inr xs
      | JObj kvs \<Rightarrow> Inr (map (\<lambda>kv. JStr (fst kv)) kvs)
      | JStr s \<Rightarrow> Inr (map (\<lambda>c. JStr [c]) s)
      | _ \<Rightarrow> Inl (Exn TypeError (quoted (type_name v) @ '' object is not iterable'')))"

text \<open>A list comprehension: the items in order, stopping at the first that raises.\<close>

fun map_exn :: "('a \<Rightarrow> exn + 'b) \<Rightarrow> 'a list \<Rightarrow> exn + 'b list" where
  "map_exn f [] = Inr []"
| "map_exn f (x # xs) =
     (case f x of
        Inl e \<Rightarrow> Inl e
      | Inr y \<Rightarrow> (case map_exn f xs of Inl e \<Rightarrow> Inl e | Inr ys \<Rightarrow> Inr (y # ys)))"

text \<open>\<open>sep.join(items)\<close>: every item must be a string.\<close>

fun join_from :: "nat \<Rightarrow> string \<Rightarrow> json list \<Rightarrow> exn + string" where
  "join_from i sep [] = Inr []"
| "join_from i sep (JStr s # rest) =
     (case join_from (Suc i) sep rest of
        Inl e \<Rightarrow> Inl e
      | Inr t \<Rightarrow> Inr (if rest = [] then s else s @ sep @ t))"
| "join_from i sep (v # rest) =
     Inl (Exn TypeError
           (''sequence item '' @ nat_digits i @ '': expected str instance, ''
            @ type_name v @ '' found''))"

definition join :: "string \<Rightarrow> json list \<Rightarrow> exn + string" where
  "join sep items = join_from 0 sep items"

text \<open>\<open>v.replace('Z', '+00:00')\<close>\<close>

definition replace_Z :: "json \<Rightarrow> exn + string" where
  "replace_Z v =
     (case v of
        JStr s \<Rightarrow> Inr (concat (map (\<lambda>c. if c = CHR ''Z'' then ''+00:00'' else [c]) s))
      | _ \<Rightarrow>
          Inl (Exn AttributeError
                (quoted (type_name v) @ '' object has no attribute '' @ quoted ''replace'')))"

text \<open>
  The dict that the comprehension of \<open>display_products\<close> builds for one product, its
  entries evaluated in order. \<open>iso_date\<close> stands for
  \<open>datetime.fromisoformat(s).strftime('%Y-%m-%d')\<close> of the standard library.
\<close>

definition product_row ::
  "(json \<Rightarrow> string) \<Rightarrow> (string \<Rightarrow> exn + string) \<Rightarrow> json \<Rightarrow> exn + pydict" where
  "product_row str_other iso_date p =
     and_then (getitem p ''id'') (\<lambda>ident.
     and_then (getitem p ''name'') (\<lambda>name.
     and_then (getitem p ''type'') (\<lambda>kind.
     and_then (getitem p ''status'') (\<lambda>status.
     and_then (getitem p ''price'') (\<lambda>price.
     and_then (dict_get p ''stock_quantity'' (JStr ''N/A'')) (\<lambda>stock.
     and_then (getitem p ''categories'') (\<lambda>cats.
     and_then (py_iter cats) (\<lambda>cat_list.
     and_then (map_exn (\<lambda>cat. getitem cat ''name'') cat_list) (\<lambda>names.
     and_then (join '', '' names) (\<lambda>categories.
     and_then (getitem p ''date_created'') (\<lambda>created.
     and_then (replace_Z created) (\<lambda>iso.
     and_then (iso_date iso) (\<lambda>day.
       Inr [(''ID'', ident), (''Name'', name), (''Type'', kind), (''Status'', status),
            (''Price'',
               if truthy price then JStr (''$'' @ py_str str_other price) else JStr ''Free''),
            (''Stock'', stock), (''Categories'', JStr categories),
            (''Date Created'', JStr day)])))))))))))))"

definition product_rows ::
  "(json \<Rightarrow> string) \<Rightarrow> (string \<Rightarrow> exn + string) \<Rightarrow> json \<Rightarrow> exn + pydict list" where
  "product_rows str_other iso_date products =
     and_then (py_iter products) (map_exn (product_row str_other iso_date))"

text \<open>The dict that the comprehension of \<open>display_subscriptions\<close> builds for one subscription.\<close>

definition subscription_row ::
  "(json \<Rightarrow> string) \<Rightarrow> (string \<Rightarrow> exn + string) \<Rightarrow> json \<Rightarrow> exn + pydict" where
  "subscription_row str_other iso_date s =
     and_then (getitem s ''id'') (\<lambda>ident.
     and_then (getitem s ''status'') (\<lambda>status.
     and_then (getitem s ''total'') (\<lambda>total.
     and_then (getitem s ''billing'') (\<lambda>billing1.
     and_then (getitem billing1 ''first_name'') (\<lambda>first_name.
     and_then (getitem s ''billing'') (\<lambda>billing2.
     and_then (getitem billing2 ''last_name'') (\<lambda>last_name.
     and_then (getitem s ''billing'') (\<lambda>billing3.
     and_then (getitem billing3 ''email'') (\<lambda>email.
     and_then (getitem s ''date_created'') (\<lambda>created.
     and_then (replace_Z created) (\<lambda>iso.
     and_then (iso_date iso) (\<lambda>day.
     and_then (dict_get s ''next_payment_date'' (JStr ''N/A'')) (\<lambda>next_payment.
       Inr [(''ID'', ident), (''Status'', status),
            (''Total'', JStr (''$'' @ py_str str_other total)),
            (''Customer'',
               JStr (py_str str_other first_name @ '' '' @ py_str str_other last_name)),
            (''Email'', email), (''Start Date'', JStr day),
            (''Next Payment'', next_payment)])))))))))))))"

definition subscription_rows ::
  "(json \<Rightarrow> string) \<Rightarrow> (string \<Rightarrow> exn + string) \<Rightarrow> json \<Rightarrow> exn + pydict list" where
  "subscription_rows str_other iso_date subscriptions =
     and_then (py_iter subscriptions) (map_exn (subscription_row str_other iso_date))"

section \<open>Sample transports and responses\<close>

text \<open>A transport that answers every request the same way.\<close>

definition always :: "outcome \<Rightarrow> transport" where
  "always out req = out"

text \<open>A response with a status, a reason, headers and a decoded JSON body.\<close>

definition sample_response ::
  "int \<Rightarrow> string \<Rightarrow> (string \<Rightarrow> string option) \<Rightarrow> json \<Rightarrow> response" where
  "sample_response st rs hs body =
     \<lparr>status_code = st, reason = rs, url = ''https://shop.example/wp-json/wc/v3/products'',
      headers = hs, json_result = Inr body, body_text = ''[]''\<rparr>"

text \<open>A 204 response: it has no body, so \<open>response.json()\<close> raises.\<close>

definition undecodable_response :: response where
  "undecodable_response =
     \<lparr>status_code = 204, reason = ''No Content'',
      url = ''https://shop.example/wp-json/wc/v3/products'',
      headers = Map.empty,
      json_result = Inl (Exn JSONDecodeError ''Expecting value: line 1 column 1 (char 0)''),
      body_text = []\<rparr>"

definition sample_api :: WooCommerceAPI where
  "sample_api = init ''https://shop.example/'' ''ck_1'' ''cs_2''"




text \<open>
  A product and a subscription as the store returns them, the date conversion at their
  creation date, and a stand-in for the text of floats, lists and dicts.
\<close>

definition sample_product :: json where
  "sample_product =
     JObj [(''id'', JInt 1), (''name'', JStr ''Mug''), (''type'', JStr ''simple''),
           (''status'', JStr ''publish''), (''price'', JStr ''9.99''),
           (''categories'', JArr [JObj [(''id'', JInt 7), (''name'', JStr ''A'')]]),
           (''date_created'', JStr ''2024-01-02T03:04:05'')]"

definition sample_subscription :: json where
  "sample_subscription =
     JObj [(''id'', JInt 12), (''status'', JStr ''active''), (''total'', JStr ''10.00''),
           (''billing'',
              JObj [(''first_name'', JStr ''Ada''), (''last_name'', JStr ''Byron''),
                    (''email'', JStr ''ada@example.org'')]),
           (''date_created'', JStr ''2024-01-02T03:04:05'')]"

definition sample_iso_date :: "string \<Rightarrow> exn + string" where
  "sample_iso_date s =
     (if s = ''2024-01-02T03:04:05'' then Inr ''2024-01-02''
      else Inl (Exn ValueError (''Invalid isoformat string: '' @ py_repr s)))"

definition sample_str_other :: "json \<Rightarrow> string" where
  "sample_str_other v = ''...''"

section \<open>Properties of the client\<close>

subsection \<open>Shared facts\<close>

lemma py_int_raises_ValueError: "py_int s = Inl e \<Longrightarrow> exn_cls e = ValueError"
  by (auto simp: py_int_def Let_def invalid_literal_def exceeds_limit_def
      split: option.splits if_splits prod.splits)

lemma ValueError_is_Exception: "exn_cls e = ValueError \<Longrightarrow> is_Exception e"
  by (simp add: is_Exception_def)

lemma HTTPError_is_Exception: "is_Exception (Exn HTTPError m)"
  by (simp add: is_Exception_def)

lemma raise_for_status_ok:
  "\<not> (400 \<le> status_code r \<and> status_code r < 600) \<Longrightarrow> raise_for_status r = Inr ()"
  by (auto simp: raise_for_status_def)

lemma paged_result_success:
  assumes "raise_for_status r = Inr ()" "json_result r = Inr d"
    and "int_header r ''X-WP-TotalPages'' 1 = Inr tp"
    and "int_header r ''X-WP-Total'' 0 = Inr ti"
  shows "paged_result r =
    Inr [(''success'', JBool True), (''data'', d),
         (''total_pages'', JInt tp), (''total_items'', JInt ti)]"
  using assms by (simp add: paged_result_def and_then_def)

lemma get_products_responded:
  "T (products_request api per_page page) = Responded r \<Longrightarrow>
   snd (get_products T api per_page page) = except_Exception (paged_result r)"
  by (simp add: get_products_def Let_def send_def and_then_def)

lemma get_subscriptions_responded:
  "T (subscriptions_request api per_page page) = Responded r \<Longrightarrow>
   snd (get_subscriptions T api per_page page) = except_Exception (paged_result r)"
  by (simp add: get_subscriptions_def Let_def send_def and_then_def)

lemma get_products_raised:
  "T (products_request api per_page page) = Raised e \<Longrightarrow>
   snd (get_products T api per_page page) = except_Exception (Inl e)"
  by (simp add: get_products_def Let_def send_def and_then_def)

lemma get_subscriptions_raised:
  "T (subscriptions_request api per_page page) = Raised e \<Longrightarrow>
   snd (get_subscriptions T api per_page page) = except_Exception (Inl e)"
  by (simp add: get_subscriptions_def Let_def send_def and_then_def)

subsection \<open>The request of \<open>get_products\<close>\<close>

text \<open>
  C6. For every credential triple and every page and page size, \<open>get_products\<close> hands
  exactly one request to the transport, whatever the transport answers: a GET of the
  stored base URL followed by \<open>/wp-json/wc/v3/products\<close>, with the key and the secret as
  the basic-authentication pair and the query parameters \<open>per_page\<close>, \<open>page\<close> and
  \<open>status = publish\<close>, and no JSON body.
\<close>

theorem get_products_one_request:
  "fst (get_products T (init b k s) per_page page) =
     [\<lparr>req_method = GET,
       req_url = base_url (init b k s) @ ''/wp-json/wc/v3/products'',
       req_auth = (k, s),
       req_params = Some (JObj [(''per_page'', JInt per_page), (''page'', JInt page),
                                (''status'', JStr ''publish'')]),
       req_json = None\<rparr>]"
  by (simp add: get_products_def Let_def products_request_def init_def)

theorem get_products_one_request_witness:
  "fst (get_products (\<lambda>_. Raised (Exn RequestException ''unreachable''))
          (init ''https://shop.example/'' ''ck_1'' ''cs_2'') 20 3) =
     [\<lparr>req_method = GET,
       req_url = ''https://shop.example/wp-json/wc/v3/products'',
       req_auth = (''ck_1'', ''cs_2''),
       req_params = Some (JObj [(''per_page'', JInt 20), (''page'', JInt 3),
                                (''status'', JStr ''publish'')]),
       req_json = None\<rparr>]"
  using get_products_one_request
    [of "\<lambda>_. Raised (Exn RequestException ''unreachable'')"
        "''https://shop.example/''" "''ck_1''" "''cs_2''" 20 3]
  by (simp add: init_def py_rstrip_def)

subsection \<open>Sample conversions\<close>

lemma py_int_5: "py_int ''5'' = Inr 5"
  by (simp add: py_int_def is_int_space_def is_digit_def
      digits_value_def digit_val_def int_max_str_digits_def)

lemma py_int_abc: "py_int ''abc'' = Inl (invalid_literal ''abc'')"
  by (simp add: py_int_def is_int_space_def is_digit_def int_max_str_digits_def)

text \<open>
  White space around the digits is skipped, an underscore between digits is allowed, a
  separator character in front is not white space for \<open>int\<close>, and the count of the
  digits comes before the look at what follows them.
\<close>

lemma py_int_spaces: "py_int '' +1_000 '' = Inr 1000"
  by (simp add: py_int_def is_int_space_def is_digit_def
      digits_value_def digit_val_def int_max_str_digits_def)

lemma py_int_separator:
  "py_int [CHR 0x1C, CHR ''5''] = Inl (invalid_literal [CHR 0x1C, CHR ''5''])"
  by (simp add: py_int_def is_int_space_def is_digit_def int_max_str_digits_def)

lemma scan_literal_digits:
  "\<forall>c \<in> set ds. is_digit c \<Longrightarrow> \<not> is_digit x \<Longrightarrow> x \<noteq> CHR ''_'' \<Longrightarrow>
   scan_literal False (ds @ x # xs) = Some (ds, False, x # xs)"
  by (induction ds) (auto simp: is_digit_def)

lemma py_int_long_then_letter:
  "py_int (replicate 4301 (CHR ''1'') @ ''x'') = Inl (exceeds_limit 4301)"
proof -
  let ?ds = "replicate 4301 (CHR ''1'')"
  have scan: "scan_literal False (?ds @ ''x'') = Some (?ds, False, ''x'')"
    by (rule scan_literal_digits) (simp_all add: is_digit_def)
  have head: "?ds @ ''x'' = CHR ''1'' # replicate 4300 (CHR ''1'') @ ''x''"
    by (simp add: numeral_eq_Suc)
  have drop: "dropWhile is_int_space (?ds @ ''x'') = ?ds @ ''x''"
    unfolding head by (simp add: is_int_space_def)
  have sign: "(case ?ds @ ''x'' of
                 [] \<Rightarrow> (False, [])
               | c # cs \<Rightarrow>
                   if c = CHR ''-'' then (True, cs)
                   else if c = CHR ''+'' then (False, cs)
                   else (False, ?ds @ ''x'')) = (False, ?ds @ ''x'')"
    unfolding head by simp
  have first: "take 1 (?ds @ ''x'') \<noteq> ''_''"
    unfolding head by simp
  show ?thesis
    unfolding py_int_def Let_def drop sign
    using first scan by (simp add: int_max_str_digits_def)
qed

lemma invalid_literal_abc:
  "exn_str (invalid_literal ''abc'') =
     ''invalid literal for int() with base 10: '' @ [CHR 0x27] @ ''abc'' @ [CHR 0x27]"
  by (simp add: invalid_literal_def py_repr_def repr_char_def is_printable_def Let_def)

subsection \<open>Page counts of \<open>get_products\<close>\<close>

text \<open>
  C1, as the code has it. For every response with a status from 200 to 299:
  if its body decodes as JSON, \<open>get_products\<close> returns the success dict with the decoded
  body, and with \<open>total_pages\<close> and \<open>total_items\<close> equal to the integer values of the
  headers \<open>X-WP-TotalPages\<close> and \<open>X-WP-Total\<close> where a header is present and \<open>int()\<close>
  accepts it, and to 1 and 0 where a header is absent. A header that is present and
  that \<open>int()\<close> rejects does not fall back to the default: the \<open>ValueError\<close> reaches the
  handler and the result is the failure dict carrying its text. And if decoding the
  body raises an \<open>Exception\<close>, the result is the failure dict carrying that text.
\<close>

theorem get_products_totals:
  assumes resp: "T (products_request api per_page page) = Responded r"
    and ok: "200 \<le> status_code r" "status_code r < 300"
  shows
    "(\<forall>d tp ti.
        json_result r = Inr d \<and>
        (headers r ''X-WP-TotalPages'' = None \<and> tp = 1
          \<or> (\<exists>s. headers r ''X-WP-TotalPages'' = Some s \<and> py_int s = Inr tp)) \<and>
        (headers r ''X-WP-Total'' = None \<and> ti = 0
          \<or> (\<exists>s. headers r ''X-WP-Total'' = Some s \<and> py_int s = Inr ti))
        \<longrightarrow> snd (get_products T api per_page page) =
              Inr [(''success'', JBool True), (''data'', d),
                   (''total_pages'', JInt tp), (''total_items'', JInt ti)])
     \<and> (\<forall>d s e. json_result r = Inr d \<and>
                headers r ''X-WP-TotalPages'' = Some s \<and> py_int s = Inl e
        \<longrightarrow> snd (get_products T api per_page page) =
              Inr [(''success'', JBool False), (''error'', JStr (exn_str e))])
     \<and> (\<forall>d s e tp. json_result r = Inr d \<and>
                 (headers r ''X-WP-TotalPages'' = None
                   \<or> (\<exists>s'. headers r ''X-WP-TotalPages'' = Some s' \<and> py_int s' = Inr tp)) \<and>
                 headers r ''X-WP-Total'' = Some s \<and> py_int s = Inl e
        \<longrightarrow> snd (get_products T api per_page page) =
              Inr [(''success'', JBool False), (''error'', JStr (exn_str e))])
     \<and> (\<forall>e. json_result r = Inl e \<and> is_Exception e
        \<longrightarrow> snd (get_products T api per_page page) =
              Inr [(''success'', JBool False), (''error'', JStr (exn_str e))])"
proof -
  have st: "raise_for_status r = Inr ()"
    using ok by (intro raise_for_status_ok) simp
  note run = get_products_responded [of T api per_page page r, OF resp]
  have good: "snd (get_products T api per_page page) =
      Inr [(''success'', JBool True), (''data'', d),
           (''total_pages'', JInt tp), (''total_items'', JInt ti)]"
    if "json_result r = Inr d"
      "int_header r ''X-WP-TotalPages'' 1 = Inr tp" "int_header r ''X-WP-Total'' 0 = Inr ti"
    for d tp ti
    using paged_result_success [OF st that] run by (simp add: except_Exception_def)
  have caught: "snd (get_products T api per_page page) =
      Inr [(''success'', JBool False), (''error'', JStr (exn_str e))]"
    if "paged_result r = Inl e" "is_Exception e" for e
    using that run by (simp add: except_Exception_def failure_def)
  have bad1: "snd (get_products T api per_page page) =
      Inr [(''success'', JBool False), (''error'', JStr (exn_str e))]"
    if "json_result r = Inr d" "headers r ''X-WP-TotalPages'' = Some s" "py_int s = Inl e"
    for d s e
  proof (rule caught)
    show "paged_result r = Inl e"
      using st that by (simp add: paged_result_def and_then_def int_header_def)
    show "is_Exception e"
      using that(3) by (intro ValueError_is_Exception py_int_raises_ValueError)
  qed
  have bad2: "snd (get_products T api per_page page) =
      Inr [(''success'', JBool False), (''error'', JStr (exn_str e))]"
    if "json_result r = Inr d" "int_header r ''X-WP-TotalPages'' 1 = Inr tp"
       "headers r ''X-WP-Total'' = Some s" "py_int s = Inl e" for d s e tp
  proof (rule caught)
    show "paged_result r = Inl e"
      using st that by (simp add: paged_result_def and_then_def int_header_def)
    show "is_Exception e"
      using that(4) by (intro ValueError_is_Exception py_int_raises_ValueError)
  qed
  have bad3: "snd (get_products T api per_page page) =
      Inr [(''success'', JBool False), (''error'', JStr (exn_str e))]"
    if "json_result r = Inl e" "is_Exception e" for e
  proof (rule caught)
    show "paged_result r = Inl e"
      using st that(1) by (simp add: paged_result_def and_then_def)
    show "is_Exception e" by (rule that(2))
  qed
  show ?thesis
  proof (intro conjI allI impI)
    fix d tp ti
    assume h: "json_result r = Inr d \<and>
        (headers r ''X-WP-TotalPages'' = None \<and> tp = 1
          \<or> (\<exists>s. headers r ''X-WP-TotalPages'' = Some s \<and> py_int s = Inr tp)) \<and>
        (headers r ''X-WP-Total'' = None \<and> ti = 0
          \<or> (\<exists>s. headers r ''X-WP-Total'' = Some s \<and> py_int s = Inr ti))"
    have "json_result r = Inr d"
      using h by simp
    moreover have "int_header r ''X-WP-TotalPages'' 1 = Inr tp"
      using h by (auto simp: int_header_def)
    moreover have "int_header r ''X-WP-Total'' 0 = Inr ti"
      using h by (auto simp: int_header_def)
    ultimately show "snd (get_products T api per_page page) =
      Inr [(''success'', JBool True), (''data'', d),
           (''total_pages'', JInt tp), (''total_items'', JInt ti)]"
      by (rule good)
  next
    fix d s e
    assume "json_result r = Inr d \<and>
                headers r ''X-WP-TotalPages'' = Some s \<and> py_int s = Inl e"
    then show "snd (get_products T api per_page page) =
        Inr [(''success'', JBool False), (''error'', JStr (exn_str e))]"
      using bad1 by blast
  next
    fix d s e tp
    assume h: "json_result r = Inr d \<and>
                 (headers r ''X-WP-TotalPages'' = None
                   \<or> (\<exists>s'. headers r ''X-WP-TotalPages'' = Some s' \<and> py_int s' = Inr tp)) \<and>
                 headers r ''X-WP-Total'' = Some s \<and> py_int s = Inl e"
    then have "\<exists>n. int_header r ''X-WP-TotalPages'' 1 = Inr n"
      by (auto simp: int_header_def)
    with h show "snd (get_products T api per_page page) =
        Inr [(''success'', JBool False), (''error'', JStr (exn_str e))]"
      using bad2 by blast
  next
    fix e
    assume "json_result r = Inl e \<and> is_Exception e"
    then show "snd (get_products T api per_page page) =
        Inr [(''success'', JBool False), (''error'', JStr (exn_str e))]"
      using bad3 by blast
  qed
qed

text \<open>
  At a 200 response with the body \<open>[]\<close>: the header \<open>X-WP-TotalPages: 5\<close> and no
  \<open>X-WP-Total\<close> give 5 and 0; the header \<open>X-WP-TotalPages: abc\<close> gives the failure dict.
  At the 204 response, whose body does not decode, the failure dict carries the
  decoder's text.
\<close>

theorem get_products_totals_witness:
  "snd (get_products
          (always (Responded (sample_response 200 ''OK'' [''X-WP-TotalPages'' \<mapsto> ''5''] (JArr []))))
          sample_api 10 1) =
     Inr [(''success'', JBool True), (''data'', JArr []),
          (''total_pages'', JInt 5), (''total_items'', JInt 0)]
   \<and> snd (get_products
          (always (Responded (sample_response 200 ''OK'' [''X-WP-TotalPages'' \<mapsto> ''abc''] (JArr []))))
          sample_api 10 1) =
     Inr [(''success'', JBool False),
          (''error'', JStr (exn_str (invalid_literal ''abc'')))]
   \<and> snd (get_products (always (Responded undecodable_response)) sample_api 10 1) =
     Inr [(''success'', JBool False),
          (''error'', JStr ''Expecting value: line 1 column 1 (char 0)'')]"
proof -
  let ?r5 = "sample_response 200 ''OK'' [''X-WP-TotalPages'' \<mapsto> ''5''] (JArr [])"
  let ?ra = "sample_response 200 ''OK'' [''X-WP-TotalPages'' \<mapsto> ''abc''] (JArr [])"
  let ?ru = "undecodable_response"
  let ?eu = "Exn JSONDecodeError ''Expecting value: line 1 column 1 (char 0)''"
  have r5: "always (Responded ?r5) (products_request sample_api 10 1) = Responded ?r5"
    and ra: "always (Responded ?ra) (products_request sample_api 10 1) = Responded ?ra"
    and ru: "always (Responded ?ru) (products_request sample_api 10 1) = Responded ?ru"
    by (simp_all add: always_def)
  have ok5: "200 \<le> status_code ?r5" "status_code ?r5 < 300"
    and oka: "200 \<le> status_code ?ra" "status_code ?ra < 300"
    by (simp_all add: sample_response_def)
  have oku: "200 \<le> status_code ?ru" "status_code ?ru < 300"
    by (simp_all add: undecodable_response_def)
  have h5: "json_result ?r5 = Inr (JArr []) \<and>
        (headers ?r5 ''X-WP-TotalPages'' = None \<and> (5::int) = 1
          \<or> (\<exists>s. headers ?r5 ''X-WP-TotalPages'' = Some s \<and> py_int s = Inr 5)) \<and>
        (headers ?r5 ''X-WP-Total'' = None \<and> (0::int) = 0
          \<or> (\<exists>s. headers ?r5 ''X-WP-Total'' = Some s \<and> py_int s = Inr 0))"
    by (simp add: sample_response_def py_int_5)
  have ha: "json_result ?ra = Inr (JArr []) \<and>
            headers ?ra ''X-WP-TotalPages'' = Some ''abc'' \<and>
            py_int ''abc'' = Inl (invalid_literal ''abc'')"
    by (simp add: sample_response_def py_int_abc)
  have hu: "json_result ?ru = Inl ?eu \<and> is_Exception ?eu"
    by (simp add: undecodable_response_def is_Exception_def)
  note t5 = get_products_totals
    [of "always (Responded ?r5)" sample_api 10 1 ?r5, OF r5 ok5]
  note ta = get_products_totals
    [of "always (Responded ?ra)" sample_api 10 1 ?ra, OF ra oka]
  note tu = get_products_totals
    [of "always (Responded ?ru)" sample_api 10 1 ?ru, OF ru oku]
  from t5 [THEN conjunct1, rule_format, OF h5]
    ta [THEN conjunct2, THEN conjunct1, rule_format, OF ha]
    tu [THEN conjunct2, THEN conjunct2, THEN conjunct2, rule_format, OF hu]
  show ?thesis by simp
qed

text \<open>
  The claim as the specification states it fails at a non-numeric header and at a body
  that is not JSON: the 200 response with \<open>X-WP-TotalPages: abc\<close> does not yield the
  success dict with \<open>total_pages = 1\<close> but the failure dict, and so does the 204
  response, which has no body.
\<close>

theorem get_products_non_numeric_header:
  "status_code (sample_response 200 ''OK'' [''X-WP-TotalPages'' \<mapsto> ''abc''] (JArr [])) = 200
   \<and> snd (get_products
          (always (Responded (sample_response 200 ''OK'' [''X-WP-TotalPages'' \<mapsto> ''abc''] (JArr []))))
          sample_api 10 1) =
     Inr [(''success'', JBool False),
          (''error'', JStr (''invalid literal for int() with base 10: ''
                            @ [CHR 0x27] @ ''abc'' @ [CHR 0x27]))]
   \<and> snd (get_products
          (always (Responded (sample_response 200 ''OK'' [''X-WP-TotalPages'' \<mapsto> ''abc''] (JArr []))))
          sample_api 10 1) \<noteq>
     Inr [(''success'', JBool True), (''data'', JArr []),
          (''total_pages'', JInt 1), (''total_items'', JInt 0)]
   \<and> status_code undecodable_response = 204
   \<and> snd (get_products (always (Responded undecodable_response)) sample_api 10 1) =
     Inr [(''success'', JBool False),
          (''error'', JStr ''Expecting value: line 1 column 1 (char 0)'')]"
proof -
  let ?ra = "sample_response 200 ''OK'' [''X-WP-TotalPages'' \<mapsto> ''abc''] (JArr [])"
  have "paged_result ?ra = Inl (invalid_literal ''abc'')"
    by (simp add: paged_result_def and_then_def raise_for_status_def int_header_def
        sample_response_def py_int_abc)
  then have "snd (get_products (always (Responded ?ra)) sample_api 10 1) =
      Inr (failure (invalid_literal ''abc''))"
    by (simp add: get_products_def Let_def send_def and_then_def always_def
        except_Exception_def is_Exception_def invalid_literal_def)
  moreover have "snd (get_products (always (Responded undecodable_response)) sample_api 10 1) =
      Inr [(''success'', JBool False),
           (''error'', JStr ''Expecting value: line 1 column 1 (char 0)'')]"
    by (simp add: get_products_def Let_def send_def and_then_def always_def
        paged_result_def raise_for_status_def undecodable_response_def
        except_Exception_def is_Exception_def failure_def)
  ultimately show ?thesis
    using invalid_literal_abc
    by (simp add: failure_def sample_response_def undecodable_response_def)
qed

subsection \<open>Statuses that fail a listing\<close>

lemma raise_for_status_error:
  assumes "400 \<le> status_code r" "status_code r < 600"
  shows "raise_for_status r =
    Inl (Exn HTTPError
      (str_int (status_code r)
       @ (if status_code r < 500 then '' Client Error: '' else '' Server Error: '')
       @ reason r @ '' for url: '' @ url r))"
  using assms by (simp add: raise_for_status_def)

lemma paged_result_error:
  assumes "400 \<le> status_code r" "status_code r < 600"
  shows "except_Exception (paged_result r) =
    Inr [(''success'', JBool False),
         (''error'', JStr (str_int (status_code r)
            @ (if status_code r < 500 then '' Client Error: '' else '' Server Error: '')
            @ reason r @ '' for url: '' @ url r))]"
  by (simp add: paged_result_def and_then_def raise_for_status_error [OF assms]
      except_Exception_def is_Exception_def failure_def)


lemma str_int_401: "str_int 401 = ''401''"
  by code_simp





subsection \<open>Failures are values\<close>

lemma except_Exception_caught:
  "is_Exception e \<Longrightarrow> except_Exception (Inl e) = Inr (failure e)"
  by (simp add: except_Exception_def)

lemma except_Exception_escapes:
  "except_Exception x = Inl e \<Longrightarrow> \<not> is_Exception e"
  by (auto simp: except_Exception_def split: sum.splits if_splits)

lemma test_connection_raised:
  "T (status_request api) = Raised e \<Longrightarrow>
   snd (test_connection T api) = except_Exception (Inl e)"
  by (simp add: test_connection_def Let_def send_def and_then_def)

lemma test_connection_error:
  assumes "T (status_request api) = Responded r"
    and "400 \<le> status_code r" "status_code r < 600"
  shows "snd (test_connection T api) =
    Inr [(''success'', JBool False),
         (''error'', JStr (str_int (status_code r)
            @ (if status_code r < 500 then '' Client Error: '' else '' Server Error: '')
            @ reason r @ '' for url: '' @ url r))]"
  using assms(1)
  by (simp add: test_connection_def Let_def send_def and_then_def
      raise_for_status_error [OF assms(2,3)] except_Exception_def is_Exception_def failure_def)

text \<open>
  C3. Whatever the transport does, the three operations of the client return the
  expected failures as values. A request that raises an \<open>Exception\<close> (a network
  failure) gives the failure dict with the text of that exception; a response with a
  status from 400 to 599 (an authentication failure is a 401) gives the failure dict
  with the text of the status error; and an exception leaves an operation only if it
  is not an \<open>Exception\<close>.
\<close>

theorem client_failures_are_values:
  "(\<forall>e. is_Exception e \<longrightarrow>
      (T (products_request api per_page page) = Raised e \<longrightarrow>
         snd (get_products T api per_page page) =
           Inr [(''success'', JBool False), (''error'', JStr (exn_str e))]) \<and>
      (T (subscriptions_request api per_page page) = Raised e \<longrightarrow>
         snd (get_subscriptions T api per_page page) =
           Inr [(''success'', JBool False), (''error'', JStr (exn_str e))]) \<and>
      (T (status_request api) = Raised e \<longrightarrow>
         snd (test_connection T api) =
           Inr [(''success'', JBool False), (''error'', JStr (exn_str e))]))
   \<and> (\<forall>r::response. 400 \<le> status_code r \<and> status_code r < 600 \<longrightarrow>
      (T (products_request api per_page page) = Responded r \<longrightarrow>
         (\<exists>m. snd (get_products T api per_page page) =
           Inr [(''success'', JBool False), (''error'', JStr m)])) \<and>
      (T (subscriptions_request api per_page page) = Responded r \<longrightarrow>
         (\<exists>m. snd (get_subscriptions T api per_page page) =
           Inr [(''success'', JBool False), (''error'', JStr m)])) \<and>
      (T (status_request api) = Responded r \<longrightarrow>
         (\<exists>m. snd (test_connection T api) =
           Inr [(''success'', JBool False), (''error'', JStr m)])))
   \<and> (\<forall>e. snd (get_products T api per_page page) = Inl e
           \<or> snd (get_subscriptions T api per_page page) = Inl e
           \<or> snd (test_connection T api) = Inl e
        \<longrightarrow> \<not> is_Exception e)"
proof (intro conjI allI impI)
  fix e
  assume e: "is_Exception e"
  {
    assume "T (products_request api per_page page) = Raised e"
    then show "snd (get_products T api per_page page) =
        Inr [(''success'', JBool False), (''error'', JStr (exn_str e))]"
      using except_Exception_caught [OF e]
      by (simp add: get_products_raised [of T api per_page page e] failure_def)
  }
  {
    assume "T (subscriptions_request api per_page page) = Raised e"
    then show "snd (get_subscriptions T api per_page page) =
        Inr [(''success'', JBool False), (''error'', JStr (exn_str e))]"
      using except_Exception_caught [OF e]
      by (simp add: get_subscriptions_raised [of T api per_page page e] failure_def)
  }
  {
    assume "T (status_request api) = Raised e"
    then show "snd (test_connection T api) =
        Inr [(''success'', JBool False), (''error'', JStr (exn_str e))]"
      using except_Exception_caught [OF e]
      by (simp add: test_connection_raised [of T api e] failure_def)
  }
next
  fix r :: response
  assume st: "400 \<le> status_code r \<and> status_code r < 600"
  then have st1: "400 \<le> status_code r" and st2: "status_code r < 600" by simp_all
  {
    assume "T (products_request api per_page page) = Responded r"
    then show "\<exists>m. snd (get_products T api per_page page) =
        Inr [(''success'', JBool False), (''error'', JStr m)]"
      using paged_result_error [OF st1 st2]
      by (simp add: get_products_responded [of T api per_page page r])
  }
  {
    assume "T (subscriptions_request api per_page page) = Responded r"
    then show "\<exists>m. snd (get_subscriptions T api per_page page) =
        Inr [(''success'', JBool False), (''error'', JStr m)]"
      using paged_result_error [OF st1 st2]
      by (simp add: get_subscriptions_responded [of T api per_page page r])
  }
  {
    assume "T (status_request api) = Responded r"
    then show "\<exists>m. snd (test_connection T api) =
        Inr [(''success'', JBool False), (''error'', JStr m)]"
      using test_connection_error [of T api r, OF _ st1 st2] by simp
  }
next
  fix e
  assume "snd (get_products T api per_page page) = Inl e
           \<or> snd (get_subscriptions T api per_page page) = Inl e
           \<or> snd (test_connection T api) = Inl e"
  moreover have "\<exists>x. snd (get_products T api per_page page) = except_Exception x"
    by (auto simp: get_products_def Let_def)
  moreover have "\<exists>x. snd (get_subscriptions T api per_page page) = except_Exception x"
    by (auto simp: get_subscriptions_def Let_def)
  moreover have "\<exists>x. snd (test_connection T api) = except_Exception x"
    by (auto simp: test_connection_def Let_def)
  ultimately show "\<not> is_Exception e"
    using except_Exception_escapes by metis
qed

text \<open>
  At a transport that raises a connection error, and at one that answers 401: every
  operation returns the failure dict.
\<close>

theorem client_failures_are_values_witness:
  "snd (get_products (always (Raised (Exn RequestException ''Connection refused'')))
          sample_api 10 1) =
     Inr [(''success'', JBool False), (''error'', JStr ''Connection refused'')]
   \<and> snd (get_subscriptions (always (Raised (Exn RequestException ''Connection refused'')))
          sample_api 10 1) =
     Inr [(''success'', JBool False), (''error'', JStr ''Connection refused'')]
   \<and> snd (test_connection (always (Raised (Exn RequestException ''Connection refused'')))
          sample_api) =
     Inr [(''success'', JBool False), (''error'', JStr ''Connection refused'')]
   \<and> (\<exists>m. snd (test_connection
          (always (Responded (sample_response 401 ''Unauthorized'' Map.empty JNull)))
          sample_api) =
     Inr [(''success'', JBool False), (''error'', JStr m)])"
proof -
  let ?e = "Exn RequestException ''Connection refused''"
  let ?r = "sample_response 401 ''Unauthorized'' Map.empty JNull"
  have e: "is_Exception ?e"
    by (simp add: is_Exception_def)
  have raised:
    "always (Raised ?e) (products_request sample_api 10 1) = Raised ?e"
    "always (Raised ?e) (subscriptions_request sample_api 10 1) = Raised ?e"
    "always (Raised ?e) (status_request sample_api) = Raised ?e"
    by (simp_all add: always_def)
  have st: "400 \<le> status_code ?r \<and> status_code ?r < 600"
    by (simp add: sample_response_def)
  have responded: "always (Responded ?r) (status_request sample_api) = Responded ?r"
    by (simp add: always_def)
  note net = client_failures_are_values
    [of "always (Raised ?e)" sample_api 10 1, THEN conjunct1, rule_format, OF e]
  note a1 = net [THEN conjunct1, rule_format, OF raised(1)]
  note a2 = net [THEN conjunct2, THEN conjunct1, rule_format, OF raised(2)]
  note a3 = net [THEN conjunct2, THEN conjunct2, rule_format, OF raised(3)]
  note b = client_failures_are_values
    [of "always (Responded ?r)" sample_api 10 1, THEN conjunct2, THEN conjunct1,
     rule_format, OF st, THEN conjunct2, THEN conjunct2, rule_format, OF responded]
  from a1 a2 a3 b show ?thesis by simp
qed

subsection \<open>The shape of a result\<close>

lemma paged_result_shape:
  "paged_result r = Inr d \<Longrightarrow>
   \<exists>body tp ti. d = [(''success'', JBool True), (''data'', body),
                     (''total_pages'', JInt tp), (''total_items'', JInt ti)]"
  by (auto simp: paged_result_def and_then_def split: sum.splits)

lemma except_Exception_shape:
  "except_Exception x = Inr d \<Longrightarrow>
   x = Inr d \<or> (\<exists>m. d = [(''success'', JBool False), (''error'', JStr m)])"
  by (auto simp: except_Exception_def failure_def split: sum.splits if_splits)

lemma listing_shape:
  assumes "except_Exception (and_then (send T req) paged_result) = Inr d"
  shows "(\<exists>body tp ti. d = [(''success'', JBool True), (''data'', body),
                           (''total_pages'', JInt tp), (''total_items'', JInt ti)])
       \<or> (\<exists>m. d = [(''success'', JBool False), (''error'', JStr m)])"
proof -
  from except_Exception_shape [OF assms]
  consider "and_then (send T req) paged_result = Inr d"
    | "\<exists>m. d = [(''success'', JBool False), (''error'', JStr m)]"
    by blast
  then show ?thesis
  proof cases
    case 1
    then obtain r where "paged_result r = Inr d"
      by (auto simp: and_then_def split: sum.splits)
    then show ?thesis
      using paged_result_shape by blast
  next
    case 2
    then show ?thesis by blast
  qed
qed

lemma test_connection_shape:
  assumes "snd (test_connection T api) = Inr d"
  shows "d = [(''success'', JBool True), (''message'', JStr ''Connection successful!'')]
       \<or> (\<exists>m. d = [(''success'', JBool False), (''error'', JStr m)])"
proof -
  let ?body = "and_then (send T (status_request api)) (\<lambda>r.
                 and_then (raise_for_status r) (\<lambda>_.
                   Inr [(''success'', JBool True),
                        (''message'', JStr ''Connection successful!'')]))"
  have "except_Exception ?body = Inr d"
    using assms by (simp add: test_connection_def Let_def)
  from except_Exception_shape [OF this]
  consider "?body = Inr d" | "\<exists>m. d = [(''success'', JBool False), (''error'', JStr m)]"
    by blast
  then show ?thesis
  proof cases
    case 1
    then have "d = [(''success'', JBool True), (''message'', JStr ''Connection successful!'')]"
      by (auto simp: and_then_def split: sum.splits)
    then show ?thesis by simp
  next
    case 2
    then show ?thesis by blast
  qed
qed

text \<open>
  C7, as the code has it. Every dict that \<open>get_products\<close> or \<open>get_subscriptions\<close>
  returns is one of two: the success dict, with exactly the entries \<open>success = True\<close>,
  \<open>data\<close>, \<open>total_pages\<close> and \<open>total_items\<close> (integers), or the failure dict, with exactly
  the entries \<open>success = False\<close> and \<open>error\<close> (a string). Every dict that
  \<open>test_connection\<close> returns is the failure dict of that shape or the success dict
  \<open>success = True\<close>, \<open>message = Connection successful!\<close>, which carries no data and no
  page counts.
\<close>

theorem result_has_one_variant:
  "(\<forall>d. snd (get_products T api per_page page) = Inr d
          \<or> snd (get_subscriptions T api per_page page) = Inr d \<longrightarrow>
        (\<exists>body tp ti. d = [(''success'', JBool True), (''data'', body),
                            (''total_pages'', JInt tp), (''total_items'', JInt ti)])
        \<or> (\<exists>m. d = [(''success'', JBool False), (''error'', JStr m)]))
   \<and> (\<forall>d. snd (test_connection T api) = Inr d \<longrightarrow>
        d = [(''success'', JBool True), (''message'', JStr ''Connection successful!'')]
        \<or> (\<exists>m. d = [(''success'', JBool False), (''error'', JStr m)]))"
proof (intro conjI allI impI)
  fix d
  assume "snd (get_products T api per_page page) = Inr d
          \<or> snd (get_subscriptions T api per_page page) = Inr d"
  then have "(\<exists>req. except_Exception (and_then (send T req) paged_result) = Inr d)"
    by (auto simp: get_products_def get_subscriptions_def Let_def)
  then show "(\<exists>body tp ti. d = [(''success'', JBool True), (''data'', body),
                            (''total_pages'', JInt tp), (''total_items'', JInt ti)])
        \<or> (\<exists>m. d = [(''success'', JBool False), (''error'', JStr m)])"
    using listing_shape by blast
next
  fix d
  assume "snd (test_connection T api) = Inr d"
  then show "d = [(''success'', JBool True), (''message'', JStr ''Connection successful!'')]
        \<or> (\<exists>m. d = [(''success'', JBool False), (''error'', JStr m)])"
    by (rule test_connection_shape)
qed

lemma get_products_200:
  "snd (get_products (always (Responded (sample_response 200 ''OK'' Map.empty (JArr []))))
          sample_api 10 1) =
     Inr [(''success'', JBool True), (''data'', JArr []),
          (''total_pages'', JInt 1), (''total_items'', JInt 0)]"
  by (simp add: get_products_def Let_def send_def and_then_def
      always_def paged_result_def raise_for_status_def int_header_def except_Exception_def
      sample_response_def)

lemma test_connection_200:
  "snd (test_connection (always (Responded (sample_response 200 ''OK'' Map.empty (JArr []))))
          sample_api) =
     Inr [(''success'', JBool True), (''message'', JStr ''Connection successful!'')]"
  by (simp add: test_connection_def Let_def send_def and_then_def
      always_def raise_for_status_def except_Exception_def sample_response_def)

text \<open>
  At a 200 response: the dict of \<open>get_products\<close> is the success dict, and the
  theorem finds its body and its counts.
\<close>

theorem result_has_one_variant_witness:
  "snd (get_products (always (Responded (sample_response 200 ''OK'' Map.empty (JArr []))))
          sample_api 10 1) =
     Inr [(''success'', JBool True), (''data'', JArr []),
          (''total_pages'', JInt 1), (''total_items'', JInt 0)]
   \<and> ((\<exists>body tp ti.
      [(''success'', JBool True), (''data'', JArr []),
       (''total_pages'', JInt 1), (''total_items'', JInt 0)] =
      [(''success'', JBool True), (''data'', body),
       (''total_pages'', JInt tp), (''total_items'', JInt ti)])
   \<or> (\<exists>m. [(''success'', JBool True), (''data'', JArr []),
            (''total_pages'', JInt 1), (''total_items'', JInt 0)] =
           [(''success'', JBool False), (''error'', JStr m)]))"
  using get_products_200 result_has_one_variant
    [of "always (Responded (sample_response 200 ''OK'' Map.empty (JArr [])))" sample_api 10 1,
     THEN conjunct1, rule_format, OF disjI1, OF get_products_200]
  by simp

text \<open>
  The claim as the specification states it fails at \<open>test_connection\<close>: its success
  dict carries a message and neither data nor page counts.
\<close>

theorem test_connection_success_has_no_data:
  "snd (test_connection (always (Responded (sample_response 200 ''OK'' Map.empty (JArr []))))
          sample_api) =
     Inr [(''success'', JBool True), (''message'', JStr ''Connection successful!'')]
   \<and> map_of [(''success'', JBool True), (''message'', JStr ''Connection successful!'')]
        ''data'' = None
   \<and> map_of [(''success'', JBool True), (''message'', JStr ''Connection successful!'')]
        ''total_pages'' = None
   \<and> map_of [(''success'', JBool True), (''message'', JStr ''Connection successful!'')]
        ''total_items'' = None"
  using test_connection_200 by simp

subsection \<open>The stored base URL\<close>

lemma py_rstrip_no_trailing: "py_rstrip ''/'' b \<noteq> u @ ''/''"
proof
  assume "py_rstrip ''/'' b = u @ ''/''"
  then have "dropWhile (\<lambda>c. c \<in> set ''/'') (rev b) = CHR ''/'' # rev u"
    by (simp add: py_rstrip_def rev_swap)
  then have "hd (dropWhile (\<lambda>c. c \<in> set ''/'') (rev b)) = CHR ''/''"
    and "dropWhile (\<lambda>c. c \<in> set ''/'') (rev b) \<noteq> []"
    by simp_all
  then show False
    using hd_dropWhile [of "\<lambda>c. c \<in> set ''/''" "rev b"] by simp
qed

lemma py_rstrip_trailing_slashes:
  "py_rstrip ''/'' (b @ replicate n (CHR ''/'')) = py_rstrip ''/'' b"
proof -
  have "dropWhile (\<lambda>c. c \<in> set ''/'') (replicate n (CHR ''/'') @ xs) =
        dropWhile (\<lambda>c. c \<in> set ''/'') xs" for xs
    by (induction n) simp_all
  then show ?thesis
    by (simp add: py_rstrip_def)
qed

lemma py_rstrip_removes_slashes:
  "\<exists>n. b = py_rstrip ''/'' b @ replicate n (CHR ''/'')"
proof -
  let ?P = "\<lambda>c. c \<in> set ''/''"
  have "rev b = takeWhile ?P (rev b) @ dropWhile ?P (rev b)"
    by simp
  then have "b = rev (dropWhile ?P (rev b)) @ rev (takeWhile ?P (rev b))"
    by (metis rev_append rev_rev_ident)
  moreover have "\<forall>c \<in> set (rev (takeWhile ?P (rev b))). c = CHR ''/''"
    by (auto dest: set_takeWhileD)
  then have "rev (takeWhile ?P (rev b)) =
      replicate (length (rev (takeWhile ?P (rev b)))) (CHR ''/'')"
    by (metis replicate_length_same)
  ultimately show ?thesis
    unfolding py_rstrip_def by metis
qed

lemma double_slash_append:
  "double_slash (xs @ ys) =
     (double_slash xs \<or> double_slash ys
      \<or> (xs \<noteq> [] \<and> ys \<noteq> [] \<and> last xs = CHR ''/'' \<and> hd ys = CHR ''/''))"
proof (induction xs)
  case Nil
  then show ?case by simp
next
  case (Cons a as)
  show ?case
  proof (cases as)
    case Nil
    then show ?thesis by (cases ys) auto
  next
    case (Cons b bs)
    with Cons.IH show ?thesis by auto
  qed
qed

lemma last_py_rstrip:
  "py_rstrip ''/'' b \<noteq> [] \<Longrightarrow> last (py_rstrip ''/'' b) \<noteq> CHR ''/''"
  using py_rstrip_no_trailing [of b "butlast (py_rstrip ''/'' b)"]
  by (metis append_butlast_last_id)

lemma double_slash_path:
  assumes "\<not> double_slash p" "hd p = CHR ''/''" "p \<noteq> []"
  shows "double_slash (py_rstrip ''/'' b @ p) = double_slash (py_rstrip ''/'' b)"
  using assms last_py_rstrip [of b] by (auto simp: double_slash_append)

text \<open>
  C10. For every base URL the constructor stores the URL without its trailing
  slashes: the stored text never ends in a slash, it differs from the given one by
  trailing slashes only, and more slashes at the end of the given URL change nothing.
  The URL that each operation requests is the stored text followed by
  \<open>/wp-json/wc/v3/...\<close>, and it has two slashes in a row only where the stored base URL
  has them (as after the scheme), not where the two parts meet.
\<close>

theorem base_url_normalised:
  "base_url (init b k s) = py_rstrip ''/'' b
   \<and> (\<nexists>u. base_url (init b k s) = u @ ''/'')
   \<and> (\<exists>m. b = base_url (init b k s) @ replicate m (CHR ''/''))
   \<and> init (b @ replicate n (CHR ''/'')) k s = init b k s
   \<and> map req_url (fst (get_products T (init b k s) per_page page)) =
       [base_url (init b k s) @ ''/wp-json/wc/v3/products'']
   \<and> map req_url (fst (get_subscriptions T (init b k s) per_page page)) =
       [base_url (init b k s) @ ''/wp-json/wc/v3/subscriptions'']
   \<and> map req_url (fst (test_connection T (init b k s))) =
       [base_url (init b k s) @ ''/wp-json/wc/v3/system_status'']
   \<and> double_slash (base_url (init b k s) @ ''/wp-json/wc/v3/products'') =
       double_slash (base_url (init b k s))
   \<and> double_slash (base_url (init b k s) @ ''/wp-json/wc/v3/subscriptions'') =
       double_slash (base_url (init b k s))
   \<and> double_slash (base_url (init b k s) @ ''/wp-json/wc/v3/system_status'') =
       double_slash (base_url (init b k s))"
proof -
  have stored: "base_url (init b k s) = py_rstrip ''/'' b"
    by (simp add: init_def)
  have "\<nexists>u. py_rstrip ''/'' b = u @ ''/''"
    using py_rstrip_no_trailing by blast
  moreover have "\<exists>m. b = py_rstrip ''/'' b @ replicate m (CHR ''/'')"
    by (rule py_rstrip_removes_slashes)
  moreover have "init (b @ replicate n (CHR ''/'')) k s = init b k s"
    by (simp add: init_def py_rstrip_trailing_slashes)
  moreover have "map req_url (fst (get_products T (init b k s) per_page page)) =
       [py_rstrip ''/'' b @ ''/wp-json/wc/v3/products'']"
    by (simp add: get_products_def Let_def products_request_def init_def)
  moreover have "map req_url (fst (get_subscriptions T (init b k s) per_page page)) =
       [py_rstrip ''/'' b @ ''/wp-json/wc/v3/subscriptions'']"
    by (simp add: get_subscriptions_def Let_def subscriptions_request_def init_def)
  moreover have "map req_url (fst (test_connection T (init b k s))) =
       [py_rstrip ''/'' b @ ''/wp-json/wc/v3/system_status'']"
    by (simp add: test_connection_def Let_def status_request_def init_def)
  moreover have "double_slash (py_rstrip ''/'' b @ ''/wp-json/wc/v3/products'') =
       double_slash (py_rstrip ''/'' b)"
    by (rule double_slash_path) simp_all
  moreover have "double_slash (py_rstrip ''/'' b @ ''/wp-json/wc/v3/subscriptions'') =
       double_slash (py_rstrip ''/'' b)"
    by (rule double_slash_path) simp_all
  moreover have "double_slash (py_rstrip ''/'' b @ ''/wp-json/wc/v3/system_status'') =
       double_slash (py_rstrip ''/'' b)"
    by (rule double_slash_path) simp_all
  ultimately show ?thesis
    unfolding stored by simp
qed

text \<open>At the base URL \<open>https://shop.example///\<close>.\<close>

theorem base_url_normalised_witness:
  "base_url (init ''https://shop.example///'' ''ck_1'' ''cs_2'') = ''https://shop.example''
   \<and> map req_url
        (fst (get_products (always (Raised (Exn RequestException ''unreachable'')))
               (init ''https://shop.example///'' ''ck_1'' ''cs_2'') 10 1)) =
       [''https://shop.example/wp-json/wc/v3/products'']"
  using base_url_normalised
    [of "''https://shop.example///''" "''ck_1''" "''cs_2''" 0
        "always (Raised (Exn RequestException ''unreachable''))" 10 1]
  by (simp add: py_rstrip_def)

subsection \<open>The request tester\<close>




















subsection \<open>Rows of the tables\<close>

lemma getitem_present: "map_of kvs key = Some x \<Longrightarrow> getitem (JObj kvs) key = Inr x"
  by (simp add: getitem_def)

lemma dict_get_dict:
  "dict_get (JObj kvs) key dflt = Inr (case map_of kvs key of None \<Rightarrow> dflt | Some x \<Rightarrow> x)"
  by (simp add: dict_get_def)

lemma replace_Z_str:
  "replace_Z (JStr s) = Inr (concat (map (\<lambda>c. if c = CHR ''Z'' then ''+00:00'' else [c]) s))"
  by (simp add: replace_Z_def)

lemma join_single: "join sep [JStr s] = Inr s"
  by (simp add: join_def)

lemma product_row_cells:
  assumes "product_row str_other iso_date (JObj kvs) = Inr row"
    and "map_of kvs ''price'' = Some (JStr ''9.99'')"
    and "map_of kvs ''categories'' = Some (JArr [JObj cat])"
    and "map_of cat ''name'' = Some (JStr ''A'')"
  shows "map_of row ''Price'' = Some (JStr ''$9.99'') \<and>
         map_of row ''Categories'' = Some (JStr ''A'')"
  using assms
  by (auto simp: product_row_def and_then_def getitem_def py_iter_def join_def py_str_def
      split: sum.splits option.splits)

lemma product_row_built:
  assumes "map_of kvs ''id'' = Some ident"
    and "map_of kvs ''name'' = Some name"
    and "map_of kvs ''type'' = Some kind"
    and "map_of kvs ''status'' = Some status"
    and "map_of kvs ''price'' = Some (JStr ''9.99'')"
    and "map_of kvs ''categories'' = Some (JArr [JObj cat])"
    and "map_of cat ''name'' = Some (JStr ''A'')"
    and "map_of kvs ''date_created'' = Some (JStr created)"
    and "iso_date (concat (map (\<lambda>c. if c = CHR ''Z'' then ''+00:00'' else [c]) created))
           = Inr day"
  shows "product_row str_other iso_date (JObj kvs) =
           Inr [(''ID'', ident), (''Name'', name), (''Type'', kind), (''Status'', status),
                (''Price'', JStr ''$9.99''),
                (''Stock'', case map_of kvs ''stock_quantity'' of
                              None \<Rightarrow> JStr ''N/A'' | Some q \<Rightarrow> q),
                (''Categories'', JStr ''A''), (''Date Created'', JStr day)]"
  using assms(9)
  by (simp add: product_row_def and_then_def getitem_present assms(1-8) dict_get_dict
      py_iter_def join_single replace_Z_str py_str_def)

text \<open>
  C8. For every product with the price string \<open>9.99\<close> and with one category whose name
  is \<open>A\<close>: every row that the comprehension builds for it has the \<open>Price\<close> \<open>$9.99\<close> and the
  \<open>Categories\<close> \<open>A\<close>. The row is built for every such product that has the other fields
  the comprehension reads (\<open>id\<close>, \<open>name\<close>, \<open>type\<close>, \<open>status\<close> and a creation date that the
  date conversion accepts): its other cells are the product's fields, \<open>Stock\<close> is the
  stock quantity or \<open>N/A\<close>, and the table of the list that holds this product is this row.
\<close>

theorem product_row_price_and_categories:
  assumes "map_of kvs ''price'' = Some (JStr ''9.99'')"
    and "map_of kvs ''categories'' = Some (JArr [JObj cat])"
    and "map_of cat ''name'' = Some (JStr ''A'')"
  shows
    "(\<forall>row. product_row str_other iso_date (JObj kvs) = Inr row \<longrightarrow>
        map_of row ''Price'' = Some (JStr ''$9.99'') \<and>
        map_of row ''Categories'' = Some (JStr ''A''))
     \<and> (\<forall>ident name kind status created day.
          map_of kvs ''id'' = Some ident \<and> map_of kvs ''name'' = Some name \<and>
          map_of kvs ''type'' = Some kind \<and> map_of kvs ''status'' = Some status \<and>
          map_of kvs ''date_created'' = Some (JStr created) \<and>
          iso_date (concat (map (\<lambda>c. if c = CHR ''Z'' then ''+00:00'' else [c]) created))
            = Inr day
          \<longrightarrow>
          product_row str_other iso_date (JObj kvs) =
            Inr [(''ID'', ident), (''Name'', name), (''Type'', kind), (''Status'', status),
                 (''Price'', JStr ''$9.99''),
                 (''Stock'', case map_of kvs ''stock_quantity'' of
                               None \<Rightarrow> JStr ''N/A'' | Some q \<Rightarrow> q),
                 (''Categories'', JStr ''A''), (''Date Created'', JStr day)]
          \<and> product_rows str_other iso_date (JArr [JObj kvs]) =
            Inr [[(''ID'', ident), (''Name'', name), (''Type'', kind), (''Status'', status),
                  (''Price'', JStr ''$9.99''),
                  (''Stock'', case map_of kvs ''stock_quantity'' of
                                None \<Rightarrow> JStr ''N/A'' | Some q \<Rightarrow> q),
                  (''Categories'', JStr ''A''), (''Date Created'', JStr day)]])"
proof (intro conjI allI impI)
  fix row
  assume "product_row str_other iso_date (JObj kvs) = Inr row"
  from product_row_cells [OF this assms]
  show "map_of row ''Price'' = Some (JStr ''$9.99'')"
    and "map_of row ''Categories'' = Some (JStr ''A'')"
    by simp_all
next
  fix ident name kind status created day
  assume h: "map_of kvs ''id'' = Some ident \<and> map_of kvs ''name'' = Some name \<and>
          map_of kvs ''type'' = Some kind \<and> map_of kvs ''status'' = Some status \<and>
          map_of kvs ''date_created'' = Some (JStr created) \<and>
          iso_date (concat (map (\<lambda>c. if c = CHR ''Z'' then ''+00:00'' else [c]) created))
            = Inr day"
  have row: "product_row str_other iso_date (JObj kvs) =
            Inr [(''ID'', ident), (''Name'', name), (''Type'', kind), (''Status'', status),
                 (''Price'', JStr ''$9.99''),
                 (''Stock'', case map_of kvs ''stock_quantity'' of
                               None \<Rightarrow> JStr ''N/A'' | Some q \<Rightarrow> q),
                 (''Categories'', JStr ''A''), (''Date Created'', JStr day)]"
    using h assms
    by (intro product_row_built [where iso_date = iso_date and cat = cat and created = created])
      simp_all
  then show "product_row str_other iso_date (JObj kvs) =
            Inr [(''ID'', ident), (''Name'', name), (''Type'', kind), (''Status'', status),
                 (''Price'', JStr ''$9.99''),
                 (''Stock'', case map_of kvs ''stock_quantity'' of
                               None \<Rightarrow> JStr ''N/A'' | Some q \<Rightarrow> q),
                 (''Categories'', JStr ''A''), (''Date Created'', JStr day)]" .
  from row show "product_rows str_other iso_date (JArr [JObj kvs]) =
            Inr [[(''ID'', ident), (''Name'', name), (''Type'', kind), (''Status'', status),
                  (''Price'', JStr ''$9.99''),
                  (''Stock'', case map_of kvs ''stock_quantity'' of
                                None \<Rightarrow> JStr ''N/A'' | Some q \<Rightarrow> q),
                  (''Categories'', JStr ''A''), (''Date Created'', JStr day)]]"
    by (simp add: product_rows_def and_then_def py_iter_def)
qed

text \<open>At the product list of the specification.\<close>

theorem product_row_price_and_categories_witness:
  "product_rows sample_str_other sample_iso_date (JArr [sample_product]) =
     Inr [[(''ID'', JInt 1), (''Name'', JStr ''Mug''), (''Type'', JStr ''simple''),
           (''Status'', JStr ''publish''), (''Price'', JStr ''$9.99''),
           (''Stock'', JStr ''N/A''), (''Categories'', JStr ''A''),
           (''Date Created'', JStr ''2024-01-02'')]]"
proof -
  let ?cat = "[(''id'', JInt 7), (''name'', JStr ''A'')]"
  let ?kvs = "[(''id'', JInt 1), (''name'', JStr ''Mug''), (''type'', JStr ''simple''),
           (''status'', JStr ''publish''), (''price'', JStr ''9.99''),
           (''categories'', JArr [JObj ?cat]),
           (''date_created'', JStr ''2024-01-02T03:04:05'')]"
  have given: "map_of ?kvs ''price'' = Some (JStr ''9.99'')"
    "map_of ?kvs ''categories'' = Some (JArr [JObj ?cat])"
    "map_of ?cat ''name'' = Some (JStr ''A'')"
    by simp_all
  have fields: "map_of ?kvs ''id'' = Some (JInt 1) \<and>
    map_of ?kvs ''name'' = Some (JStr ''Mug'') \<and>
    map_of ?kvs ''type'' = Some (JStr ''simple'') \<and>
    map_of ?kvs ''status'' = Some (JStr ''publish'') \<and>
    map_of ?kvs ''date_created'' = Some (JStr ''2024-01-02T03:04:05'') \<and>
    sample_iso_date
       (concat (map (\<lambda>c. if c = CHR ''Z'' then ''+00:00'' else [c]) ''2024-01-02T03:04:05''))
       = Inr ''2024-01-02''"
    by (simp add: sample_iso_date_def)
  from product_row_price_and_categories
    [where iso_date = sample_iso_date and str_other = sample_str_other, OF given,
     THEN conjunct2, rule_format, OF fields, THEN conjunct2]
  show ?thesis
    by (simp add: sample_product_def)
qed

lemma subscription_row_cells:
  assumes "subscription_row str_other iso_date (JObj kvs) = Inr row"
    and "map_of kvs ''next_payment_date'' = None"
  shows "map_of row ''Next Payment'' = Some (JStr ''N/A'')"
  using assms
  by (auto simp: subscription_row_def and_then_def dict_get_def
      split: sum.splits option.splits)

lemma subscription_row_built:
  assumes "map_of kvs ''id'' = Some ident"
    and "map_of kvs ''status'' = Some status"
    and "map_of kvs ''total'' = Some amount"
    and "map_of kvs ''billing'' = Some (JObj billing)"
    and "map_of billing ''first_name'' = Some first_name"
    and "map_of billing ''last_name'' = Some last_name"
    and "map_of billing ''email'' = Some email"
    and "map_of kvs ''date_created'' = Some (JStr created)"
    and "iso_date (concat (map (\<lambda>c. if c = CHR ''Z'' then ''+00:00'' else [c]) created))
           = Inr day"
    and "map_of kvs ''next_payment_date'' = None"
  shows "subscription_row str_other iso_date (JObj kvs) =
           Inr [(''ID'', ident), (''Status'', status),
                (''Total'', JStr (''$'' @ py_str str_other amount)),
                (''Customer'',
                   JStr (py_str str_other first_name @ '' '' @ py_str str_other last_name)),
                (''Email'', email), (''Start Date'', JStr day),
                (''Next Payment'', JStr ''N/A'')]"
  using assms(9)
  by (simp add: subscription_row_def and_then_def getitem_present assms(1-8,10) dict_get_dict
      replace_Z_str)

text \<open>
  C9. For every subscription that has no \<open>next_payment_date\<close>: every row that the
  comprehension builds for it has \<open>N/A\<close> as its \<open>Next Payment\<close>. The row is built for every
  such subscription that has the fields the comprehension reads (\<open>id\<close>, \<open>status\<close>,
  \<open>total\<close>, a \<open>billing\<close> dict with \<open>first_name\<close>, \<open>last_name\<close> and \<open>email\<close>, and a creation
  date that the date conversion accepts), and every other cell comes from its field.
\<close>

theorem subscription_row_next_payment:
  assumes "map_of kvs ''next_payment_date'' = None"
  shows
    "(\<forall>row. subscription_row str_other iso_date (JObj kvs) = Inr row \<longrightarrow>
        map_of row ''Next Payment'' = Some (JStr ''N/A''))
     \<and> (\<forall>ident status amount billing first_name last_name email created day.
          map_of kvs ''id'' = Some ident \<and> map_of kvs ''status'' = Some status \<and>
          map_of kvs ''total'' = Some amount \<and>
          map_of kvs ''billing'' = Some (JObj billing) \<and>
          map_of billing ''first_name'' = Some first_name \<and>
          map_of billing ''last_name'' = Some last_name \<and>
          map_of billing ''email'' = Some email \<and>
          map_of kvs ''date_created'' = Some (JStr created) \<and>
          iso_date (concat (map (\<lambda>c. if c = CHR ''Z'' then ''+00:00'' else [c]) created))
            = Inr day
          \<longrightarrow>
          subscription_row str_other iso_date (JObj kvs) =
            Inr [(''ID'', ident), (''Status'', status),
                 (''Total'', JStr (''$'' @ py_str str_other amount)),
                 (''Customer'',
                    JStr (py_str str_other first_name @ '' '' @ py_str str_other last_name)),
                 (''Email'', email), (''Start Date'', JStr day),
                 (''Next Payment'', JStr ''N/A'')])"
proof (intro conjI allI impI)
  fix row
  assume "subscription_row str_other iso_date (JObj kvs) = Inr row"
  from subscription_row_cells [OF this assms]
  show "map_of row ''Next Payment'' = Some (JStr ''N/A'')" .
next
  fix ident status amount billing first_name last_name email created day
  assume h: "map_of kvs ''id'' = Some ident \<and> map_of kvs ''status'' = Some status \<and>
          map_of kvs ''total'' = Some amount \<and>
          map_of kvs ''billing'' = Some (JObj billing) \<and>
          map_of billing ''first_name'' = Some first_name \<and>
          map_of billing ''last_name'' = Some last_name \<and>
          map_of billing ''email'' = Some email \<and>
          map_of kvs ''date_created'' = Some (JStr created) \<and>
          iso_date (concat (map (\<lambda>c. if c = CHR ''Z'' then ''+00:00'' else [c]) created))
            = Inr day"
  show "subscription_row str_other iso_date (JObj kvs) =
            Inr [(''ID'', ident), (''Status'', status),
                 (''Total'', JStr (''$'' @ py_str str_other amount)),
                 (''Customer'',
                    JStr (py_str str_other first_name @ '' '' @ py_str str_other last_name)),
                 (''Email'', email), (''Start Date'', JStr day),
                 (''Next Payment'', JStr ''N/A'')]"
    using h assms
    by (intro subscription_row_built
        [where iso_date = iso_date and billing = billing and created = created])
      simp_all
qed

text \<open>At a subscription without the field.\<close>

theorem subscription_row_next_payment_witness:
  "subscription_row sample_str_other sample_iso_date sample_subscription =
     Inr [(''ID'', JInt 12), (''Status'', JStr ''active''), (''Total'', JStr ''$10.00''),
          (''Customer'', JStr ''Ada Byron''), (''Email'', JStr ''ada@example.org''),
          (''Start Date'', JStr ''2024-01-02''), (''Next Payment'', JStr ''N/A'')]"
proof -
  let ?b = "[(''first_name'', JStr ''Ada''), (''last_name'', JStr ''Byron''),
             (''email'', JStr ''ada@example.org'')]"
  let ?kvs = "[(''id'', JInt 12), (''status'', JStr ''active''), (''total'', JStr ''10.00''),
           (''billing'', JObj ?b),
           (''date_created'', JStr ''2024-01-02T03:04:05'')]"
  have given: "map_of ?kvs ''next_payment_date'' = None"
    by simp
  have fields: "map_of ?kvs ''id'' = Some (JInt 12) \<and>
    map_of ?kvs ''status'' = Some (JStr ''active'') \<and>
    map_of ?kvs ''total'' = Some (JStr ''10.00'') \<and>
    map_of ?kvs ''billing'' = Some (JObj ?b) \<and>
    map_of ?b ''first_name'' = Some (JStr ''Ada'') \<and>
    map_of ?b ''last_name'' = Some (JStr ''Byron'') \<and>
    map_of ?b ''email'' = Some (JStr ''ada@example.org'') \<and>
    map_of ?kvs ''date_created'' = Some (JStr ''2024-01-02T03:04:05'') \<and>
    sample_iso_date
       (concat (map (\<lambda>c. if c = CHR ''Z'' then ''+00:00'' else [c]) ''2024-01-02T03:04:05''))
       = Inr ''2024-01-02''"
    by (simp add: sample_iso_date_def)
  from subscription_row_next_payment
    [where iso_date = sample_iso_date and str_other = sample_str_other, OF given,
     THEN conjunct2, rule_format, OF fields]
  show ?thesis
    by (simp add: sample_subscription_def py_str_def)
qed

end
